theory Spec2Isabelle
  imports Main "HOL-Library.Multiset"
begin

section \<open>JavaScript values and objects\<close>

text \<open>
  The controllers of \<^verbatim>\<open>backend/controllers/product.js\<close> read request fields whose
  values are JavaScript values. The model has the values that a parsed request body, the
  upload middlewares and the handler itself produce: \<^verbatim>\<open>undefined\<close>, \<^verbatim>\<open>null\<close>, booleans,
  integer-valued numbers, strings and \<^verbatim>\<open>Date\<close> objects (as milliseconds).
\<close>

datatype jsval = Undefined | Null | Bool bool | Num int | Str string | DateV nat

text \<open>An object is a finite map from property names to values.\<close>

type_synonym obj = "string \<rightharpoonup> jsval"

text \<open>Reading a property that the object does not have gives \<^verbatim>\<open>undefined\<close>.\<close>

definition get_prop :: "obj \<Rightarrow> string \<Rightarrow> jsval" where
  "get_prop ob k = (case ob k of None \<Rightarrow> Undefined | Some v \<Rightarrow> v)"

text \<open>Truthiness, as \<^verbatim>\<open>if (v)\<close>, \<^verbatim>\<open>v ? a : b\<close> and \<^verbatim>\<open>v || w\<close> test it.\<close>

fun truthy :: "jsval \<Rightarrow> bool" where
  "truthy Undefined = False"
| "truthy Null = False"
| "truthy (Bool b) = b"
| "truthy (Num n) = (n \<noteq> 0)"
| "truthy (Str s) = (s \<noteq> [])"
| "truthy (DateV t) = True"

datatype js_error = TypeError string | Error string

fun message :: "js_error \<Rightarrow> string" where
  "message (TypeError m) = m"
| "message (Error m) = m"

text \<open>
  The method call \<^verbatim>\<open>v.toLowerCase()\<close>: only a string has the method, and the result is
  what the runtime's \<^verbatim>\<open>String.prototype.toLowerCase\<close> makes of it, here the function
  \<open>lc\<close>; on any other value the call throws a \<^verbatim>\<open>TypeError\<close>, whose message names the
  expression \<open>e\<close> it was called on (the texts are the engine's, the ones for
  \<^verbatim>\<open>undefined\<close> and \<^verbatim>\<open>null\<close> shortened; no handler reaches those two).
\<close>

fun call_toLowerCase :: "(string \<Rightarrow> string) \<Rightarrow> string \<Rightarrow> jsval \<Rightarrow> js_error + jsval" where
  "call_toLowerCase lc e (Str s) = Inr (Str (lc s))"
| "call_toLowerCase lc e Undefined = Inl (TypeError (''Cannot read properties of undefined''))"
| "call_toLowerCase lc e Null = Inl (TypeError (''Cannot read properties of null''))"
| "call_toLowerCase lc e v = Inl (TypeError (e @ ''.toLowerCase is not a function''))"

section \<open>The environment of a request\<close>

text \<open>
  What a handler obtains from outside while it serves one request: the identifier that
  \<^verbatim>\<open>uuidv4()\<close> returns, the clock read by \<^verbatim>\<open>new Date()\<close>, the runtime's
  \<^verbatim>\<open>String.prototype.toLowerCase\<close> (which follows the Unicode case mapping and is not
  computed here), the numeric test of the validation library (\<^verbatim>\<open>isNumeric\<close>, applied to
  the field's value), and for every operation of the store the error it throws during
  this request, if any.
\<close>

datatype store_op = OpCreate | OpFindAll | OpFindOne | OpUpdate | OpDestroy

record env =
  uuidv4 :: string
  now :: nat
  toLowerCase :: "string \<Rightarrow> string"
  isNumeric :: "jsval \<Rightarrow> bool"
  fault :: "store_op \<Rightarrow> string option"

section \<open>The product store\<close>

text \<open>
  Modelled from the spec: the \<^verbatim>\<open>Product\<close> model of \<^verbatim>\<open>../models\<close>, which the controller
  imports and whose file is not part of the sources at hand. The spec describes it as a
  store of product records offering create, find all (ordered), find by id, update and
  delete by id, which maintains the bookkeeping timestamps \<^verbatim>\<open>createdAt\<close> and
  \<^verbatim>\<open>updatedAt\<close> itself, whose update replaces the fields present in the update payload
  and leaves the others, in which a record's \<^verbatim>\<open>id\<close> and \<^verbatim>\<open>expiryDate\<close> are assigned at
  creation and immutable thereafter, and whose every operation may fail with an error
  message.
\<close>

record row =
  data :: obj
  createdAt :: nat
  updatedAt :: nat

datatype direction = ASC | DESC

type_synonym ordering = "(string \<times> direction) list"

text \<open>Every call a handler makes on the store is recorded, with its arguments.\<close>

datatype store_call =
    CallCreate obj
  | CallFindAll ordering
  | CallFindOne string
  | CallUpdate row obj
  | CallDestroy string

record store =
  rows :: "row list"
  calls :: "store_call list"

definition called :: "store_call \<Rightarrow> store \<Rightarrow> store" where
  "called c st = st\<lparr>calls := calls st @ [c]\<rparr>"

definition has_id :: "string \<Rightarrow> row \<Rightarrow> bool" where
  "has_id i r = (data r ''id'' = Some (Str i))"

text \<open>Modelled from the spec: \<^verbatim>\<open>Product.create(values)\<close> stores one new record.\<close>

definition Product_create :: "env \<Rightarrow> obj \<Rightarrow> store \<Rightarrow> (js_error + row) \<times> store" where
  "Product_create e values st =
     (let st1 = called (CallCreate values) st in
      case fault e OpCreate of
        Some m \<Rightarrow> (Inl (Error m), st1)
      | None \<Rightarrow>
          (let product = \<lparr>data = values, createdAt = now e, updatedAt = now e\<rparr>
           in (Inr product, st1\<lparr>rows := rows st1 @ [product]\<rparr>)))"

text \<open>
  Modelled from the spec: the order of \<^verbatim>\<open>Product.findAll({ order })\<close>. A clause on one
  of the two timestamp columns sorts by it; the clauses are applied from the last to the
  first, so that the first one decides. A clause on any other column leaves the order as
  it is.
\<close>

definition directed :: "direction \<Rightarrow> row list \<Rightarrow> row list" where
  "directed d rs = (case d of ASC \<Rightarrow> rs | DESC \<Rightarrow> rev rs)"

definition order_clause :: "string \<times> direction \<Rightarrow> row list \<Rightarrow> row list" where
  "order_clause c rs =
     (if fst c = ''createdAt'' then directed (snd c) (sort_key createdAt rs)
      else if fst c = ''updatedAt'' then directed (snd c) (sort_key updatedAt rs)
      else rs)"

definition order_rows :: "ordering \<Rightarrow> row list \<Rightarrow> row list" where
  "order_rows ord rs = foldr order_clause ord rs"

definition Product_findAll :: "env \<Rightarrow> ordering \<Rightarrow> store \<Rightarrow> (js_error + row list) \<times> store" where
  "Product_findAll e ord st =
     (let st1 = called (CallFindAll ord) st in
      case fault e OpFindAll of
        Some m \<Rightarrow> (Inl (Error m), st1)
      | None \<Rightarrow> (Inr (order_rows ord (rows st)), st1))"

text \<open>
  Modelled from the spec: \<^verbatim>\<open>Product.findOne({ where: { id } })\<close> gives the first record
  with that id, or \<^verbatim>\<open>null\<close> (here \<open>None\<close>).
\<close>

definition Product_findOne :: "env \<Rightarrow> string \<Rightarrow> store \<Rightarrow> (js_error + row option) \<times> store" where
  "Product_findOne e i st =
     (let st1 = called (CallFindOne i) st in
      case fault e OpFindOne of
        Some m \<Rightarrow> (Inl (Error m), st1)
      | None \<Rightarrow> (Inr (find (has_id i) (rows st)), st1))"

text \<open>
  Modelled from the spec: the fields of a record that no update writes. The spec calls
  \<^verbatim>\<open>id\<close> and \<^verbatim>\<open>expiryDate\<close> assigned at creation time and immutable thereafter.
\<close>

definition immutable_fields :: "string list" where
  "immutable_fields = [''id'', ''expiryDate'']"

text \<open>
  Modelled from the spec: \<^verbatim>\<open>product.update(values)\<close> on a record that was found. The
  fields present in \<open>values\<close> replace the record's, except the immutable ones, which keep
  their value; the fields absent from \<open>values\<close> stay, and the store stamps
  \<^verbatim>\<open>updatedAt\<close>. The stored records with the key of \<open>product\<close> are the ones written.
\<close>

definition apply_update :: "env \<Rightarrow> obj \<Rightarrow> row \<Rightarrow> row" where
  "apply_update e values r =
     r\<lparr>data := (\<lambda>k. if k \<in> set immutable_fields then data r k
                      else (case values k of None \<Rightarrow> data r k | Some v \<Rightarrow> Some v)),
       updatedAt := now e\<rparr>"

definition product_update :: "env \<Rightarrow> row \<Rightarrow> obj \<Rightarrow> store \<Rightarrow> (js_error + row) \<times> store" where
  "product_update e product values st =
     (let st1 = called (CallUpdate product values) st in
      case fault e OpUpdate of
        Some m \<Rightarrow> (Inl (Error m), st1)
      | None \<Rightarrow>
          (Inr (apply_update e values product),
           st1\<lparr>rows := map (\<lambda>r. if data r ''id'' = data product ''id''
                                 then apply_update e values r else r) (rows st1)\<rparr>))"

text \<open>
  Modelled from the spec: \<^verbatim>\<open>Product.destroy({ where: { id } })\<close> removes the records
  with that id and returns how many there were.
\<close>

definition Product_destroy :: "env \<Rightarrow> string \<Rightarrow> store \<Rightarrow> (js_error + nat) \<times> store" where
  "Product_destroy e i st =
     (let st1 = called (CallDestroy i) st in
      case fault e OpDestroy of
        Some m \<Rightarrow> (Inl (Error m), st1)
      | None \<Rightarrow>
          (Inr (length (filter (has_id i) (rows st))),
           st1\<lparr>rows := filter (\<lambda>r. \<not> has_id i r) (rows st1)\<rparr>))"

section \<open>Requests, responses and validation\<close>

text \<open>
  The request as the final handler of a route sees it, after the middlewares before it
  have run: the route parameter \<^verbatim>\<open>req.params.id\<close>, the parsed fields \<^verbatim>\<open>req.body\<close>, the
  file \<^verbatim>\<open>req.file\<close> that the upload middleware attached (if any) with its
  \<^verbatim>\<open>filename\<close> property, and \<^verbatim>\<open>req.cloudinaryUrl\<close> (\<^verbatim>\<open>undefined\<close> unless the cloud
  upload middleware has set it). The \<^verbatim>\<open>filename\<close> is a value like any other: a storage
  engine that keeps the file in memory, as the one configured in line 4, names no file
  and leaves the property \<^verbatim>\<open>undefined\<close>.
\<close>

record upload_file =
  filename :: jsval

record request =
  params_id :: string
  body :: obj
  req_file :: "upload_file option"
  cloudinaryUrl :: jsval

text \<open>One entry of \<^verbatim>\<open>errors.array()\<close>: the field, the message and the rejected value.\<close>

record verror =
  param :: string
  msg :: string
  val :: jsval

datatype payload =
    JsonRow row
  | JsonRows "row list"
  | JsonErrors "verror list"
  | JsonError string
  | Text string

text \<open>
  A handler either sends a response (\<^verbatim>\<open>res.status(n).json(...)\<close> or \<^verbatim>\<open>.send(...)\<close>), or
  its promise rejects with an exception thrown outside every \<^verbatim>\<open>try\<close>.
\<close>

datatype outcome = Response nat payload | Rejected js_error

text \<open>
  A validation chain \<^verbatim>\<open>body(field)[.optional()].test().withMessage(m)\<close>. A chain marked
  optional is skipped when the field is \<^verbatim>\<open>undefined\<close>.
\<close>

record rule =
  field :: string
  optional :: bool
  test :: "jsval \<Rightarrow> bool"
  withMessage :: string

text \<open>
  \<^verbatim>\<open>notEmpty()\<close> looks at the value as a string and rejects the string of length 0;
  \<^verbatim>\<open>undefined\<close> and \<^verbatim>\<open>null\<close> count as the empty string.
\<close>

fun notEmpty :: "jsval \<Rightarrow> bool" where
  "notEmpty Undefined = False"
| "notEmpty Null = False"
| "notEmpty (Str s) = (s \<noteq> [])"
| "notEmpty (Bool b) = True"
| "notEmpty (Num n) = True"
| "notEmpty (DateV t) = True"

definition run_rule :: "obj \<Rightarrow> rule \<Rightarrow> verror list" where
  "run_rule b r =
     (let v = get_prop b (field r) in
      if optional r \<and> v = Undefined then []
      else if test r v then []
      else [\<lparr>param = field r, msg = withMessage r, val = v\<rparr>])"

text \<open>\<^verbatim>\<open>validationResult(req).array()\<close>: the failures of the chains, in the chains' order.\<close>

definition validationResult :: "rule list \<Rightarrow> obj \<Rightarrow> verror list" where
  "validationResult rules b = concat (map (run_rule b) rules)"

text \<open>The messages, as the UTF-8 bytes of the source text.\<close>

definition msg_name_required :: string where
  "msg_name_required = ''Nome '' @ [CHR 0xC3, CHR 0xA9] @ '' obrigat'' @ [CHR 0xC3, CHR 0xB3] @ ''rio''"

definition msg_price_numeric :: string where
  "msg_price_numeric =
     ''O pre'' @ [CHR 0xC3, CHR 0xA7] @ ''o deve ser num'' @ [CHR 0xC3, CHR 0xA9] @ ''rico''"

definition msg_name_not_empty :: string where
  "msg_name_not_empty = ''Nome n'' @ [CHR 0xC3, CHR 0xA3] @ ''o pode estar vazio''"

definition create_rules :: "env \<Rightarrow> rule list" where
  "create_rules e =
     [\<lparr>field = ''name'', optional = False, test = notEmpty, withMessage = msg_name_required\<rparr>,
      \<lparr>field = ''price'', optional = False, test = isNumeric e, withMessage = msg_price_numeric\<rparr>]"

definition update_rules :: "env \<Rightarrow> rule list" where
  "update_rules e =
     [\<lparr>field = ''name'', optional = True, test = notEmpty, withMessage = msg_name_not_empty\<rparr>,
      \<lparr>field = ''price'', optional = True, test = isNumeric e, withMessage = msg_price_numeric\<rparr>]"

section \<open>The controllers\<close>

subsection \<open>createProduct\<close>

text \<open>
  \<^verbatim>\<open>const productImage = req.file ? req.file.filename : req.cloudinaryUrl || null;\<close>
  The conditional binds weaker than \<^verbatim>\<open>||\<close>: the alternative is
  \<^verbatim>\<open>req.cloudinaryUrl || null\<close>.
\<close>

definition productImage :: "request \<Rightarrow> jsval" where
  "productImage req =
     (case req_file req of
        Some f \<Rightarrow> filename f
      | None \<Rightarrow> (if truthy (cloudinaryUrl req) then cloudinaryUrl req else Null))"

text \<open>
  The object literal \<^verbatim>\<open>{ ...req.body, id, name, productImage, expiryDate }\<close>: the four
  properties written after the spread replace the body's. Lower-casing the name throws
  when the name is not a string.
\<close>

definition transformedData :: "env \<Rightarrow> request \<Rightarrow> js_error + obj" where
  "transformedData e req =
     (case call_toLowerCase (toLowerCase e) ''req.body.name'' (get_prop (body req) ''name'') of
        Inl err \<Rightarrow> Inl err
      | Inr lowered \<Rightarrow>
          Inr ((body req)(''id'' \<mapsto> Str (uuidv4 e),
                          ''name'' \<mapsto> lowered,
                          ''productImage'' \<mapsto> productImage req,
                          ''expiryDate'' \<mapsto> DateV (now e))))"

definition createProduct :: "env \<Rightarrow> request \<Rightarrow> store \<Rightarrow> outcome \<times> store" where
  "createProduct e req st =
     (let errors = validationResult (create_rules e) (body req) in
      if errors \<noteq> [] then (Response 400 (JsonErrors errors), st)
      else
        (case transformedData e req of
           Inl err \<Rightarrow> (Rejected err, st)
         | Inr values \<Rightarrow>
             (case Product_create e values st of
                (Inr product, st') \<Rightarrow> (Response 201 (JsonRow product), st')
              | (Inl err, st') \<Rightarrow> (Response 500 (JsonError (message err)), st'))))"

subsection \<open>getAllProducts\<close>

definition getAllProducts :: "env \<Rightarrow> store \<Rightarrow> outcome \<times> store" where
  "getAllProducts e st =
     (case Product_findAll e [(''createdAt'', DESC)] st of
        (Inr products, st') \<Rightarrow> (Response 200 (JsonRows products), st')
      | (Inl err, st') \<Rightarrow> (Response 500 (Text (message err)), st'))"

subsection \<open>getProductById\<close>

definition getProductById :: "env \<Rightarrow> request \<Rightarrow> store \<Rightarrow> outcome \<times> store" where
  "getProductById e req st =
     (case Product_findOne e (params_id req) st of
        (Inr (Some product), st') \<Rightarrow> (Response 200 (JsonRow product), st')
      | (Inr None, st') \<Rightarrow>
          (Response 404 (Text ''Product with the specified ID does not exist''), st')
      | (Inl err, st') \<Rightarrow> (Response 500 (Text (message err)), st'))"

subsection \<open>updateProductById\<close>

text \<open>
  \<^verbatim>\<open>const updatedData = req.body; if (updatedData.name) { updatedData.name =
  updatedData.name.toLowerCase(); }\<close>: a truthy name is lower-cased, which throws when it
  is not a string; a falsy or absent name leaves the payload as it is.
\<close>

definition updatedData :: "env \<Rightarrow> request \<Rightarrow> js_error + obj" where
  "updatedData e req =
     (if truthy (get_prop (body req) ''name'')
      then (case call_toLowerCase (toLowerCase e) ''updatedData.name''
                   (get_prop (body req) ''name'') of
              Inl err \<Rightarrow> Inl err
            | Inr lowered \<Rightarrow> Inr ((body req)(''name'' \<mapsto> lowered)))
      else Inr (body req))"

definition updateProductById :: "env \<Rightarrow> request \<Rightarrow> store \<Rightarrow> outcome \<times> store" where
  "updateProductById e req st =
     (let errors = validationResult (update_rules e) (body req) in
      if errors \<noteq> [] then (Response 400 (JsonErrors errors), st)
      else
        (case Product_findOne e (params_id req) st of
           (Inl err, st1) \<Rightarrow> (Response 500 (Text (message err)), st1)
         | (Inr None, st1) \<Rightarrow> (Response 404 (Text ''Product not found''), st1)
         | (Inr (Some product), st1) \<Rightarrow>
             (case updatedData e req of
                Inl err \<Rightarrow> (Response 500 (Text (message err)), st1)
              | Inr values \<Rightarrow>
                  (case product_update e product values st1 of
                     (Inl err, st2) \<Rightarrow> (Response 500 (Text (message err)), st2)
                   | (Inr product', st2) \<Rightarrow> (Response 200 (JsonRow product'), st2)))))"

subsection \<open>deleteProductById\<close>

text \<open>
  A destroy that removed nothing makes the handler throw \<^verbatim>\<open>Error('Product not found')\<close>
  inside its own \<^verbatim>\<open>try\<close>; the \<^verbatim>\<open>catch\<close> answers 500 with the message.
\<close>

definition deleteProductById :: "env \<Rightarrow> request \<Rightarrow> store \<Rightarrow> outcome \<times> store" where
  "deleteProductById e req st =
     (case Product_destroy e (params_id req) st of
        (Inl err, st') \<Rightarrow> (Response 500 (Text (message err)), st')
      | (Inr deletedProduct, st') \<Rightarrow>
          (if deletedProduct \<noteq> 0
           then (Response 204 (Text ''Product deleted successfully''), st')
           else (Response 500 (Text (message (Error ''Product not found''))), st')))"

section \<open>Observations\<close>

text \<open>The ids of the stored records, in the order of the store.\<close>

definition ids :: "store \<Rightarrow> jsval option list" where
  "ids st = map (\<lambda>r. data r ''id'') (rows st)"

section \<open>Concrete requests and stores\<close>

text \<open>
  An instance of the numeric test, as the validation library implements it with its
  default options: on the value's string form, an optional sign, then digits, or
  digits (possibly none), a point and at least one digit.
\<close>

definition is_digit :: "char \<Rightarrow> bool" where
  "is_digit c = ((48::nat) \<le> of_char c \<and> of_char c \<le> (57::nat))"

definition numeric_string :: "string \<Rightarrow> bool" where
  "numeric_string s =
     (let t = (case s of [] \<Rightarrow> [] | c # r \<Rightarrow> if c = CHR ''+'' \<or> c = CHR ''-'' then r else s)
      in case dropWhile is_digit t of
           [] \<Rightarrow> t \<noteq> []
         | c # b \<Rightarrow> c = CHR ''.'' \<and> b \<noteq> [] \<and> list_all is_digit b)"

fun isNumeric_validator :: "jsval \<Rightarrow> bool" where
  "isNumeric_validator (Str s) = numeric_string s"
| "isNumeric_validator (Num n) = True"
| "isNumeric_validator v = False"

text \<open>
  An instance of the lower-casing for the requests below, whose names are ASCII text: the
  letters \<^verbatim>\<open>A\<close> to \<^verbatim>\<open>Z\<close> become \<^verbatim>\<open>a\<close> to \<^verbatim>\<open>z\<close>, as the runtime's function does on
  such text. It says nothing about other characters and stands in no theorem about all
  requests.
\<close>

definition ascii_lower_char :: "char \<Rightarrow> char" where
  "ascii_lower_char c =
     (if (65::nat) \<le> of_char c \<and> of_char c \<le> (90::nat)
      then char_of (of_char c + (32::nat)) else c)"

definition ascii_lower :: "string \<Rightarrow> string" where
  "ascii_lower s = map ascii_lower_char s"

definition env_ok :: env where
  "env_ok = \<lparr>uuidv4 = ''3f2b8c1e-5d4a-4c6b-9e7f-000000000001'', now = 40,
             toLowerCase = ascii_lower, isNumeric = isNumeric_validator,
             fault = (\<lambda>_. None)\<rparr>"

definition env_down :: env where
  "env_down = env_ok\<lparr>fault := (\<lambda>_. Some ''connection refused'')\<rparr>"

definition store_empty :: store where
  "store_empty = \<lparr>rows = [], calls = []\<rparr>"

text \<open>The spec's example: \<^verbatim>\<open>{name: "Chair", price: "49.99"}\<close> and no file.\<close>

definition req_chair :: request where
  "req_chair = \<lparr>params_id = [], body = [''name'' \<mapsto> Str ''Chair'', ''price'' \<mapsto> Str ''49.99''],
                req_file = None, cloudinaryUrl = Undefined\<rparr>"

text \<open>The same fields with a file on the request and a cloud URL as well.\<close>

definition req_chair_both :: request where
  "req_chair_both =
     req_chair\<lparr>req_file := Some \<lparr>filename = Str ''chair.png''\<rparr>,
               cloudinaryUrl := Str ''https://res.cloudinary.com/demo/chair.png''\<rparr>"

definition req_chair_cloud :: request where
  "req_chair_cloud = req_chair\<lparr>cloudinaryUrl := Str ''https://res.cloudinary.com/demo/chair.png''\<rparr>"

text \<open>Requests that fail validation: no name, and a price that is not numeric.\<close>

definition req_no_name :: request where
  "req_no_name = req_chair\<lparr>body := [''price'' \<mapsto> Str ''49.99'']\<rparr>"

definition req_bad_price :: request where
  "req_bad_price = req_chair\<lparr>body := [''name'' \<mapsto> Str ''Chair'', ''price'' \<mapsto> Str ''cheap'']\<rparr>"

text \<open>A store with three products, created at times 10, 30 and 20.\<close>

definition row_of :: "string \<Rightarrow> string \<Rightarrow> string \<Rightarrow> nat \<Rightarrow> row" where
  "row_of i n p t =
     \<lparr>data = [''id'' \<mapsto> Str i, ''name'' \<mapsto> Str n, ''price'' \<mapsto> Str p,
              ''productImage'' \<mapsto> Null, ''expiryDate'' \<mapsto> DateV t],
      createdAt = t, updatedAt = t\<rparr>"

definition store_three :: store where
  "store_three =
     \<lparr>rows = [row_of ''p1'' ''chair'' ''49.99'' 10, row_of ''p2'' ''desk'' ''120'' 30,
              row_of ''p3'' ''lamp'' ''15.5'' 20],
      calls = []\<rparr>"

text \<open>
  Update requests for the product \<^verbatim>\<open>p1\<close>: a new name only, a new id, and a new price
  together with a new id and a new expiryDate.
\<close>

definition req_rename :: request where
  "req_rename = \<lparr>params_id = ''p1'', body = [''name'' \<mapsto> Str ''Widget''],
                 req_file = None, cloudinaryUrl = Undefined\<rparr>"

definition req_new_id :: request where
  "req_new_id = req_rename\<lparr>body := [''id'' \<mapsto> Str ''p9'']\<rparr>"

definition req_reprice :: request where
  "req_reprice = req_rename\<lparr>body := [''price'' \<mapsto> Str ''5'', ''id'' \<mapsto> Str ''p9'',
                                     ''expiryDate'' \<mapsto> DateV 99]\<rparr>"


definition req_unknown :: request where
  "req_unknown = req_rename\<lparr>params_id := ''p7'', body := Map.empty\<rparr>"

section \<open>Facts about validation, the transformation and the examples\<close>

lemma validationResult_create:
  "validationResult (create_rules e) b =
     (if notEmpty (get_prop b ''name'') then []
      else [\<lparr>param = ''name'', msg = msg_name_required, val = get_prop b ''name''\<rparr>]) @
     (if isNumeric e (get_prop b ''price'') then []
      else [\<lparr>param = ''price'', msg = msg_price_numeric, val = get_prop b ''price''\<rparr>])"
  by (simp add: validationResult_def create_rules_def run_rule_def)

lemma validationResult_create_Nil:
  "validationResult (create_rules e) b = [] \<longleftrightarrow>
     notEmpty (get_prop b ''name'') \<and> isNumeric e (get_prop b ''price'')"
  by (simp add: validationResult_create)

lemma validationResult_update:
  "validationResult (update_rules e) b =
     (if get_prop b ''name'' = Undefined \<or> notEmpty (get_prop b ''name'') then []
      else [\<lparr>param = ''name'', msg = msg_name_not_empty, val = get_prop b ''name''\<rparr>]) @
     (if get_prop b ''price'' = Undefined \<or> isNumeric e (get_prop b ''price'') then []
      else [\<lparr>param = ''price'', msg = msg_price_numeric, val = get_prop b ''price''\<rparr>])"
  by (simp add: validationResult_def update_rules_def run_rule_def Let_def)

lemma transformedData_Str:
  "body req ''name'' = Some (Str s) \<Longrightarrow>
   transformedData e req =
     Inr ((body req)(''id'' \<mapsto> Str (uuidv4 e), ''name'' \<mapsto> Str (toLowerCase e s),
                     ''productImage'' \<mapsto> productImage req, ''expiryDate'' \<mapsto> DateV (now e)))"
  by (simp add: transformedData_def get_prop_def)

lemma upd_shadowed:
  "k = k1 \<or> k = k3 \<Longrightarrow>
   (m(k \<mapsto> v))(k1 \<mapsto> a, k2 \<mapsto> b, k3 \<mapsto> c, k4 \<mapsto> d) = m(k1 \<mapsto> a, k2 \<mapsto> b, k3 \<mapsto> c, k4 \<mapsto> d)"
  by (auto simp: fun_eq_iff)

lemma productImage_body_upd:
  "productImage (req\<lparr>body := b\<rparr>) = productImage req"
  by (simp add: productImage_def split: option.splits)

lemma transformedData_body_upd:
  assumes "k = ''id'' \<or> k = ''productImage''"
  shows "transformedData e (req\<lparr>body := (body req)(k \<mapsto> v)\<rparr>) = transformedData e req"
proof -
  have n: "get_prop ((body req)(k \<mapsto> v)) ''name'' = get_prop (body req) ''name''"
    using assms by (auto simp: get_prop_def)
  show ?thesis
    unfolding transformedData_def productImage_body_upd
    by (simp add: n upd_shadowed [OF assms] del: fun_upd_apply cong: sum.case_cong)
qed

lemma createProduct_created:
  assumes "createProduct e req st = (Response 201 (JsonRow product), st')"
  shows "transformedData e req = Inr (data product)"
    and "rows st' = rows st @ [product]"
    and "calls st' = calls st @ [CallCreate (data product)]"
    and "createdAt product = now e"
    and "validationResult (create_rules e) (body req) = []"
  using assms
  by (auto simp: createProduct_def Product_create_def called_def Let_def
           split: if_splits sum.splits option.splits prod.splits)

lemma transformedData_fields:
  assumes "transformedData e req = Inr values"
  shows "values ''id'' = Some (Str (uuidv4 e))"
    and "values ''productImage'' = Some (productImage req)"
    and "values ''expiryDate'' = Some (DateV (now e))"
    and "\<exists>s. body req ''name'' = Some (Str s) \<and> values ''name'' = Some (Str (toLowerCase e s))"
    and "k \<notin> {''id'', ''name'', ''productImage'', ''expiryDate''} \<Longrightarrow> values k = body req k"
proof -
  obtain lowered where
    l: "call_toLowerCase (toLowerCase e) ''req.body.name'' (get_prop (body req) ''name'') = Inr lowered"
    and v: "values = (body req)(''id'' \<mapsto> Str (uuidv4 e), ''name'' \<mapsto> lowered,
                        ''productImage'' \<mapsto> productImage req, ''expiryDate'' \<mapsto> DateV (now e))"
    using assms by (auto simp: transformedData_def split: sum.splits)
  from l obtain s where s: "get_prop (body req) ''name'' = Str s" "lowered = Str (toLowerCase e s)"
    by (cases "get_prop (body req) ''name''") auto
  from s(1) have b: "body req ''name'' = Some (Str s)"
    by (auto simp: get_prop_def split: option.splits)
  show "values ''id'' = Some (Str (uuidv4 e))" by (simp add: v)
  show "values ''productImage'' = Some (productImage req)" by (simp add: v)
  show "values ''expiryDate'' = Some (DateV (now e))" by (simp add: v)
  show "\<exists>s. body req ''name'' = Some (Str s) \<and> values ''name'' = Some (Str (toLowerCase e s))"
    using b s(2) by (simp add: v)
  show "values k = body req k" if "k \<notin> {''id'', ''name'', ''productImage'', ''expiryDate''}"
    using that by (simp add: v)
qed

lemma req_defs_simps:
  "body req_chair = [''name'' \<mapsto> Str ''Chair'', ''price'' \<mapsto> Str ''49.99'']"
  "req_file req_chair = None" "cloudinaryUrl req_chair = Undefined"
  "body req_no_name = [''price'' \<mapsto> Str ''49.99'']"
  "body req_bad_price = [''name'' \<mapsto> Str ''Chair'', ''price'' \<mapsto> Str ''cheap'']"
  "body req_chair_both = body req_chair"
  "req_file req_chair_both = Some \<lparr>filename = Str ''chair.png''\<rparr>"
  "cloudinaryUrl req_chair_both = Str ''https://res.cloudinary.com/demo/chair.png''"
  "body req_chair_cloud = body req_chair"
  "req_file req_chair_cloud = None"
  "cloudinaryUrl req_chair_cloud = Str ''https://res.cloudinary.com/demo/chair.png''"
  by (simp_all add: req_chair_def req_no_name_def req_bad_price_def req_chair_both_def
        req_chair_cloud_def)

lemma env_ok_simps:
  "uuidv4 env_ok = ''3f2b8c1e-5d4a-4c6b-9e7f-000000000001''" "now env_ok = 40"
  "toLowerCase env_ok = ascii_lower"
  "isNumeric env_ok = isNumeric_validator" "fault env_ok op = None"
  by (simp_all add: env_ok_def)

lemma numeric_examples:
  "numeric_string ''49.99''" "\<not> numeric_string ''cheap''"
  by (simp_all add: numeric_string_def is_digit_def)

lemma ascii_lower_examples:
  "ascii_lower ''Chair'' = ''chair''" "ascii_lower ''Widget'' = ''widget''"
  by (simp_all add: ascii_lower_def ascii_lower_char_def char_of_eq_iff)

lemma createProduct_chair:
  "req_file req = f \<Longrightarrow> cloudinaryUrl req = u \<Longrightarrow> body req = body req_chair \<Longrightarrow>
   createProduct env_ok req store_empty =
     (let product = \<lparr>data = [''price'' \<mapsto> Str ''49.99'',
                ''id'' \<mapsto> Str ''3f2b8c1e-5d4a-4c6b-9e7f-000000000001'',
                ''name'' \<mapsto> Str ''chair'', ''productImage'' \<mapsto> productImage req,
                ''expiryDate'' \<mapsto> DateV 40],
        createdAt = 40, updatedAt = 40\<rparr>
      in (Response 201 (JsonRow product), \<lparr>rows = [product], calls = [CallCreate (data product)]\<rparr>))"
  by (simp add: createProduct_def validationResult_create transformedData_def get_prop_def
        Product_create_def called_def req_defs_simps env_ok_simps
        numeric_examples ascii_lower_examples store_empty_def Let_def)

lemma order_rows_createdAt_DESC:
  "order_rows [(''createdAt'', DESC)] rs = rev (sort_key createdAt rs)"
  by (simp add: order_rows_def order_clause_def directed_def)

lemma newest_first_sorted:
  "sorted_wrt (\<lambda>a b. createdAt b \<le> createdAt a) (rev (sort_key createdAt rs))"
proof -
  have "sorted (map createdAt (sort_key createdAt rs))"
    by (rule sorted_sort_key)
  then have "sorted_wrt (\<lambda>a b. createdAt a \<le> createdAt b) (sort_key createdAt rs)"
    by (simp only: sorted_map)
  then show ?thesis
    by (simp only: sorted_wrt_rev)
qed

lemma store_three_simps:
  "rows store_three = [row_of ''p1'' ''chair'' ''49.99'' 10, row_of ''p2'' ''desk'' ''120'' 30,
              row_of ''p3'' ''lamp'' ''15.5'' 20]"
  "calls store_three = []"
  by (simp_all add: store_three_def)

lemma row_of_simps:
  "createdAt (row_of i n p t) = t" "updatedAt (row_of i n p t) = t"
  "data (row_of i n p t) ''id'' = Some (Str i)"
  "has_id j (row_of i n p t) \<longleftrightarrow> i = j"
  by (auto simp: row_of_def has_id_def)

lemma find_None_has_id:
  "(\<forall>r\<in>set rs. \<not> has_id i r) \<Longrightarrow> find (has_id i) rs = None"
  by (simp add: find_None_iff)

lemma find_Some_has_id:
  "(\<exists>r\<in>set rs. has_id i r) \<Longrightarrow> \<exists>r\<in>set rs. has_id i r \<and> find (has_id i) rs = Some r"
  by (cases "find (has_id i) rs") (auto simp: find_None_iff find_Some_iff)

lemma updatedData_text:
  assumes "body req ''name'' = Some (Str s)" and "s \<noteq> []"
  shows "updatedData e req = Inr ((body req)(''name'' \<mapsto> Str (toLowerCase e s)))"
  using assms by (simp add: updatedData_def get_prop_def)

lemma updatedData_falsy:
  assumes "\<not> truthy (get_prop (body req) ''name'')"
  shows "updatedData e req = Inr (body req)"
  using assms by (simp add: updatedData_def)

lemma updatedData_others:
  assumes "updatedData e req = Inr vals" and "k \<noteq> ''name''"
  shows "vals k = body req k"
proof (cases "truthy (get_prop (body req) ''name'')")
  case False
  then show ?thesis
    using assms by (simp add: updatedData_falsy)
next
  case True
  then obtain lowered where "vals = (body req)(''name'' \<mapsto> lowered)"
    using assms(1) by (auto simp: updatedData_def split: sum.splits)
  then show ?thesis
    using assms(2) by simp
qed

lemma updatedData_absent:
  assumes "updatedData e req = Inr vals" and "body req k = None"
  shows "vals k = None"
proof (cases "k = ''name''")
  case False
  then show ?thesis
    using updatedData_others [OF assms(1)] assms(2) by simp
next
  case True
  then have "\<not> truthy (get_prop (body req) ''name'')"
    using assms(2) by (simp add: get_prop_def)
  then show ?thesis
    using assms True by (simp add: updatedData_falsy)
qed

lemma updateProductById_cases:
  assumes "updateProductById e req st = (out, st')"
  shows "(\<exists>old vals. find (has_id (params_id req)) (rows st) = Some old
            \<and> updatedData e req = Inr vals
            \<and> out = Response 200 (JsonRow (apply_update e vals old))
            \<and> rows st' = map (\<lambda>r. if data r ''id'' = data old ''id''
                                     then apply_update e vals r else r) (rows st)
            \<and> calls st' = calls st @ [CallFindOne (params_id req), CallUpdate old vals])
       \<or> ((\<forall>p. out \<noteq> Response 200 p) \<and> rows st' = rows st)"
  using assms
  by (auto simp: updateProductById_def Product_findOne_def product_update_def called_def Let_def
           split: if_splits option.splits sum.splits)

lemma apply_update_data:
  "data (apply_update e vals r) k =
     (if k = ''id'' \<or> k = ''expiryDate'' then data r k
      else (case vals k of None \<Rightarrow> data r k | Some v \<Rightarrow> Some v))"
  by (simp add: apply_update_def immutable_fields_def)

lemma apply_update_createdAt: "createdAt (apply_update e vals r) = createdAt r"
  by (simp add: apply_update_def)

lemma has_id_apply_update: "has_id i (apply_update e vals r) = has_id i r"
  by (simp add: has_id_def apply_update_data)

lemma find_has_id_Some: "find (has_id i) rs = Some r \<Longrightarrow> has_id i r"
  by (auto simp: find_Some_iff)

lemma find_after_update:
  assumes "find (has_id i) rs = Some old"
  shows "find (has_id i) (map (\<lambda>r. if data r ''id'' = data old ''id''
                                    then apply_update e vals r else r) rs)
         = Some (apply_update e vals old)"
  using assms
proof (induction rs)
  case Nil
  then show ?case by simp
next
  case (Cons r rs)
  show ?case
  proof (cases "has_id i r")
    case True
    with Cons.prems have "r = old" by simp
    with True show ?thesis by (simp add: has_id_apply_update)
  next
    case False
    with Cons.prems have "find (has_id i) rs = Some old" by simp
    with False Cons.IH show ?thesis by (simp add: has_id_apply_update)
  qed
qed

lemma column_unchanged_by_update:
  assumes "k = ''id'' \<or> k = ''expiryDate'' \<or> vals k = None"
  shows "map (\<lambda>r. data r k)
           (map (\<lambda>r. if data r ''id'' = i then apply_update e vals r else r) rs)
         = map (\<lambda>r. data r k) rs"
  using assms by (induction rs) (auto simp: apply_update_data)

lemma column_unchanged_by_updateProductById:
  assumes "k = ''id'' \<or> k = ''expiryDate'' \<or> body req k = None"
  shows "map (\<lambda>r. data r k) (rows (snd (updateProductById e req st))) = map (\<lambda>r. data r k) (rows st)"
proof -
  obtain out st' where c: "updateProductById e req st = (out, st')"
    by (cases "updateProductById e req st")
  from updateProductById_cases [OF c]
  consider
    (ok) old vals where "find (has_id (params_id req)) (rows st) = Some old"
      "updatedData e req = Inr vals"
      "out = Response 200 (JsonRow (apply_update e vals old))"
      "rows st' = map (\<lambda>r. if data r ''id'' = data old ''id''
                             then apply_update e vals r else r) (rows st)"
  | (no) "(\<forall>p. out \<noteq> Response 200 p) \<and> rows st' = rows st"
    by blast
  then have "map (\<lambda>r. data r k) (rows st') = map (\<lambda>r. data r k) (rows st)"
  proof cases
    case no
    then show ?thesis by simp
  next
    case ok
    have "k = ''id'' \<or> k = ''expiryDate'' \<or> vals k = None"
      using assms updatedData_absent [OF ok(2), of k] by auto
    then show ?thesis
      unfolding ok(4) by (rule column_unchanged_by_update)
  qed
  then show ?thesis
    by (simp add: c)
qed

lemma req_update_simps:
  "params_id req_rename = ''p1''" "body req_rename = [''name'' \<mapsto> Str ''Widget'']"
  "params_id req_new_id = ''p1''" "body req_new_id = [''id'' \<mapsto> Str ''p9'']"
  "params_id req_reprice = ''p1''"
  "body req_reprice = [''price'' \<mapsto> Str ''5'', ''id'' \<mapsto> Str ''p9'', ''expiryDate'' \<mapsto> DateV 99]"
  "params_id req_unknown = ''p7''" "body req_unknown = Map.empty"
  by (simp_all add: req_rename_def req_new_id_def req_reprice_def req_unknown_def)

lemma updateProductById_succeeds:
  assumes "find (has_id (params_id req)) (rows st) = Some old"
      and "validationResult (update_rules e) (body req) = []"
      and "fault e OpFindOne = None" and "fault e OpUpdate = None"
      and "updatedData e req = Inr vals"
  shows "updateProductById e req st =
           (Response 200 (JsonRow (apply_update e vals old)),
            \<lparr>rows = map (\<lambda>r. if data r ''id'' = data old ''id''
                              then apply_update e vals r else r) (rows st),
             calls = calls st @ [CallFindOne (params_id req), CallUpdate old vals]\<rparr>)"
  using assms
  by (simp add: updateProductById_def Product_findOne_def product_update_def called_def Let_def)

lemma find_store_three_p1:
  "find (has_id ''p1'') (rows store_three) = Some (row_of ''p1'' ''chair'' ''49.99'' 10)"
  by (simp add: store_three_simps row_of_simps)

lemma numeric_five: "numeric_string ''5''"
  by (simp add: numeric_string_def is_digit_def)

lemma validation_update_examples:
  "validationResult (update_rules env_ok) (body req_rename) = []"
  "validationResult (update_rules env_ok) (body req_new_id) = []"
  "validationResult (update_rules env_ok) (body req_reprice) = []"
  by (simp_all add: validationResult_update req_update_simps get_prop_def env_ok_simps
        numeric_five)



lemma updatedData_total:
  assumes "validationResult (update_rules e) (body req) = []"
      and "\<forall>v. body req ''name'' = Some v \<longrightarrow> (\<exists>s. v = Str s) \<or> \<not> truthy v"
  shows "\<exists>vals. updatedData e req = Inr vals
           \<and> (\<forall>k. k \<noteq> ''name'' \<longrightarrow> vals k = body req k)
           \<and> (\<forall>s. body req ''name'' = Some (Str s) \<longrightarrow>
                  vals ''name'' = Some (Str (toLowerCase e s)))
           \<and> (\<forall>v. body req ''name'' = Some v \<and> (\<forall>s. v \<noteq> Str s) \<longrightarrow> vals ''name'' = Some v)
           \<and> (body req ''name'' = None \<longrightarrow> vals ''name'' = None)"
proof (cases "\<exists>s. body req ''name'' = Some (Str s)")
  case True
  then obtain s where s: "body req ''name'' = Some (Str s)" by blast
  have "get_prop (body req) ''name'' = Undefined \<or> notEmpty (get_prop (body req) ''name'')"
    using assms(1) by (simp add: validationResult_update split: if_splits)
  then have ne: "s \<noteq> []"
    using s by (simp add: get_prop_def)
  show ?thesis
    using updatedData_text [OF s ne, of e] s by simp
next
  case False
  then have f: "\<not> truthy (get_prop (body req) ''name'')"
    using assms(2) by (cases "body req ''name''") (auto simp: get_prop_def)
  show ?thesis
    using updatedData_falsy [OF f, of e] False by simp
qed

lemma updatedData_examples:
  "updatedData env_ok req_rename = Inr [''name'' \<mapsto> Str ''widget'']"
  "updatedData env_ok req_new_id = Inr [''id'' \<mapsto> Str ''p9'']"
  "updatedData env_ok req_reprice
     = Inr [''price'' \<mapsto> Str ''5'', ''id'' \<mapsto> Str ''p9'', ''expiryDate'' \<mapsto> DateV 99]"
  by (simp_all add: updatedData_def req_update_simps get_prop_def env_ok_simps
        ascii_lower_examples)

lemma update_p1_examples:
  "find (has_id (params_id req_rename)) (rows store_three) = Some (row_of ''p1'' ''chair'' ''49.99'' 10)"
  "find (has_id (params_id req_new_id)) (rows store_three) = Some (row_of ''p1'' ''chair'' ''49.99'' 10)"
  "find (has_id (params_id req_reprice)) (rows store_three) = Some (row_of ''p1'' ''chair'' ''49.99'' 10)"
  by (simp_all add: req_update_simps find_store_three_p1)

section \<open>The claims\<close>

subsection \<open>C1: which image reference a created product carries\<close>

text \<open>
  C1, as the spec states it: when both a local file result and a cloud-derived URL are
  available, the image reference stored on the product is the cloud URL (cloud URL, else
  local filename, else none). The handler tests \<^verbatim>\<open>req.file\<close> first: with a file and a
  cloud URL on the request, the created product carries the file's \<^verbatim>\<open>filename\<close>, not the
  cloud URL.
\<close>

theorem C1_counterexample:
  "fst (createProduct env_ok req_chair_both store_empty) =
     Response 201 (JsonRow
       \<lparr>data = [''price'' \<mapsto> Str ''49.99'',
                ''id'' \<mapsto> Str ''3f2b8c1e-5d4a-4c6b-9e7f-000000000001'',
                ''name'' \<mapsto> Str ''chair'', ''productImage'' \<mapsto> Str ''chair.png'',
                ''expiryDate'' \<mapsto> DateV 40],
        createdAt = 40, updatedAt = 40\<rparr>)
   \<and> cloudinaryUrl req_chair_both = Str ''https://res.cloudinary.com/demo/chair.png''
   \<and> productImage req_chair_both \<noteq> cloudinaryUrl req_chair_both"
  by (simp add: createProduct_def validationResult_create transformedData_def get_prop_def
        productImage_def Product_create_def called_def req_defs_simps env_ok_simps
        numeric_examples ascii_lower_examples store_empty_def Let_def)

text \<open>
  C1, amended: a product that Create has stored carries the \<^verbatim>\<open>filename\<close> of the
  request's file whenever the request has a file, whether or not a cloud URL is there as
  well; without a file it carries the cloud URL when that is truthy, and \<^verbatim>\<open>null\<close>
  otherwise. The order is: local file, else cloud URL, else none.
\<close>

theorem C1_productImage_order:
  assumes "createProduct e req st = (Response 201 (JsonRow product), st')"
  shows "(\<forall>f. req_file req = Some f \<longrightarrow> data product ''productImage'' = Some (filename f))
       \<and> (req_file req = None \<and> truthy (cloudinaryUrl req) \<longrightarrow>
            data product ''productImage'' = Some (cloudinaryUrl req))
       \<and> (req_file req = None \<and> \<not> truthy (cloudinaryUrl req) \<longrightarrow>
            data product ''productImage'' = Some Null)
       \<and> last (rows st') = product"
proof -
  have d: "transformedData e req = Inr (data product)" and r: "rows st' = rows st @ [product]"
    using createProduct_created [OF assms] by simp_all
  have "data product ''productImage'' = Some (productImage req)"
    by (rule transformedData_fields(2) [OF d])
  with r show ?thesis
    by (simp add: productImage_def)
qed

theorem C1_productImage_order_witness:
  "data (last (rows (snd (createProduct env_ok req_chair_both store_empty)))) ''productImage''
     = Some (Str ''chair.png'')
   \<and> data (last (rows (snd (createProduct env_ok req_chair_cloud store_empty)))) ''productImage''
     = Some (Str ''https://res.cloudinary.com/demo/chair.png'')
   \<and> data (last (rows (snd (createProduct env_ok req_chair store_empty)))) ''productImage''
     = Some Null"
proof -
  obtain p1 s1 where c1: "createProduct env_ok req_chair_both store_empty = (Response 201 (JsonRow p1), s1)"
    by (simp add: createProduct_chair [OF refl refl] req_defs_simps Let_def)
  obtain p2 s2 where c2: "createProduct env_ok req_chair_cloud store_empty = (Response 201 (JsonRow p2), s2)"
    by (simp add: createProduct_chair [OF refl refl] req_defs_simps Let_def)
  obtain p3 s3 where c3: "createProduct env_ok req_chair store_empty = (Response 201 (JsonRow p3), s3)"
    by (simp add: createProduct_chair [OF refl refl] req_defs_simps Let_def)
  show ?thesis
    using C1_productImage_order [OF c1] C1_productImage_order [OF c2] C1_productImage_order [OF c3]
    by (simp add: c1 c2 c3 req_defs_simps)
qed

subsection \<open>C2: invalid Create input\<close>

text \<open>
  C2: for every Create input whose name is missing or empty, or whose price fails the
  numeric test, Create answers 400 with the list of the validation failures, which is not
  empty, and the store is left exactly as it was: no record is added and no call is made
  on it (the record of calls is unchanged, so \<^verbatim>\<open>Product.create\<close> was not called). The
  list has the failure of the name first, when there is one, then that of the price.
\<close>

theorem C2_invalid_create_rejected:
  assumes "body req ''name'' = None \<or> body req ''name'' = Some (Str [])
           \<or> \<not> isNumeric e (get_prop (body req) ''price'')"
  shows "createProduct e req st =
           (Response 400 (JsonErrors (validationResult (create_rules e) (body req))), st)
         \<and> validationResult (create_rules e) (body req) \<noteq> []
         \<and> validationResult (create_rules e) (body req) =
             (if notEmpty (get_prop (body req) ''name'') then []
              else [\<lparr>param = ''name'', msg = msg_name_required,
                      val = get_prop (body req) ''name''\<rparr>]) @
             (if isNumeric e (get_prop (body req) ''price'') then []
              else [\<lparr>param = ''price'', msg = msg_price_numeric,
                      val = get_prop (body req) ''price''\<rparr>])"
proof -
  have "\<not> (notEmpty (get_prop (body req) ''name'') \<and> isNumeric e (get_prop (body req) ''price''))"
    using assms by (auto simp: get_prop_def)
  then have ne: "validationResult (create_rules e) (body req) \<noteq> []"
    by (simp add: validationResult_create_Nil)
  then have "createProduct e req st =
      (Response 400 (JsonErrors (validationResult (create_rules e) (body req))), st)"
    by (simp add: createProduct_def Let_def)
  with ne show ?thesis
    by (simp add: validationResult_create)
qed

theorem C2_invalid_create_rejected_witness:
  "createProduct env_ok req_no_name store_empty =
     (Response 400 (JsonErrors [\<lparr>param = ''name'', msg = msg_name_required, val = Undefined\<rparr>]),
      store_empty)
   \<and> createProduct env_ok req_bad_price store_empty =
     (Response 400 (JsonErrors [\<lparr>param = ''price'', msg = msg_price_numeric, val = Str ''cheap''\<rparr>]),
      store_empty)"
proof -
  have h1: "body req_no_name ''name'' = None \<or> body req_no_name ''name'' = Some (Str [])
            \<or> \<not> isNumeric env_ok (get_prop (body req_no_name) ''price'')"
    by (simp add: req_defs_simps)
  have h2: "body req_bad_price ''name'' = None \<or> body req_bad_price ''name'' = Some (Str [])
            \<or> \<not> isNumeric env_ok (get_prop (body req_bad_price) ''price'')"
    by (simp add: req_defs_simps env_ok_simps get_prop_def numeric_examples)
  show ?thesis
    using C2_invalid_create_rejected [OF h1, of store_empty]
          C2_invalid_create_rejected [OF h2, of store_empty]
    by (simp add: req_defs_simps env_ok_simps get_prop_def numeric_examples)
qed

subsection \<open>C3: the record Create hands to the store\<close>




subsection \<open>C4: what UpdateById changes\<close>

text \<open>
  C4: UpdateById changes on no stored record, whatever its outcome, a field that is
  absent from the payload, nor the id, nor the expiryDate. For every call on an existing
  product whose payload passes validation, whose name is absent, text or falsy, and on
  which the store does not fail, the call answers 200 with the updated record, which the
  store then holds under the requested id. The handler hands the payload to the record's
  update with the name lower-cased by the runtime when it is text and every other field
  as submitted. In the updated record a text name is lower-cased, every other submitted
  field except id and expiryDate has the submitted value, every field absent from the
  payload has the value it had, and the id, the expiryDate and the creation time are the
  old ones.
\<close>

theorem C4_update_partial:
  "(\<forall>k. body req k = None \<or> k = ''id'' \<or> k = ''expiryDate'' \<longrightarrow>
        map (\<lambda>r. data r k) (rows (snd (updateProductById e req st)))
          = map (\<lambda>r. data r k) (rows st))
   \<and> (find (has_id (params_id req)) (rows st) = Some old
        \<and> validationResult (update_rules e) (body req) = []
        \<and> fault e OpFindOne = None \<and> fault e OpUpdate = None
        \<and> (\<forall>v. body req ''name'' = Some v \<longrightarrow> (\<exists>s. v = Str s) \<or> \<not> truthy v)
      \<longrightarrow> (\<exists>new vals.
            fst (updateProductById e req st) = Response 200 (JsonRow new)
          \<and> find (has_id (params_id req)) (rows (snd (updateProductById e req st))) = Some new
          \<and> calls (snd (updateProductById e req st))
               = calls st @ [CallFindOne (params_id req), CallUpdate old vals]
          \<and> (\<forall>k. k \<noteq> ''name'' \<longrightarrow> vals k = body req k)
          \<and> (\<forall>s. body req ''name'' = Some (Str s) \<longrightarrow>
                 vals ''name'' = Some (Str (toLowerCase e s))
                 \<and> data new ''name'' = Some (Str (toLowerCase e s)))
          \<and> (\<forall>v. body req ''name'' = Some v \<and> (\<forall>s. v \<noteq> Str s) \<longrightarrow>
                 data new ''name'' = Some v)
          \<and> (\<forall>k. body req k = None \<longrightarrow> data new k = data old k)
          \<and> (\<forall>k v. k \<notin> {''name'', ''id'', ''expiryDate''} \<and> body req k = Some v \<longrightarrow>
                 data new k = Some v)
          \<and> data new ''id'' = data old ''id''
          \<and> data new ''expiryDate'' = data old ''expiryDate''
          \<and> createdAt new = createdAt old))"
proof -
  have frame: "map (\<lambda>r. data r k) (rows (snd (updateProductById e req st)))
          = map (\<lambda>r. data r k) (rows st)"
    if "body req k = None \<or> k = ''id'' \<or> k = ''expiryDate''" for k
    using that by (intro column_unchanged_by_updateProductById) auto
  have carried: "\<exists>new vals.
            fst (updateProductById e req st) = Response 200 (JsonRow new)
          \<and> find (has_id (params_id req)) (rows (snd (updateProductById e req st))) = Some new
          \<and> calls (snd (updateProductById e req st))
               = calls st @ [CallFindOne (params_id req), CallUpdate old vals]
          \<and> (\<forall>k. k \<noteq> ''name'' \<longrightarrow> vals k = body req k)
          \<and> (\<forall>s. body req ''name'' = Some (Str s) \<longrightarrow>
                 vals ''name'' = Some (Str (toLowerCase e s))
                 \<and> data new ''name'' = Some (Str (toLowerCase e s)))
          \<and> (\<forall>v. body req ''name'' = Some v \<and> (\<forall>s. v \<noteq> Str s) \<longrightarrow>
                 data new ''name'' = Some v)
          \<and> (\<forall>k. body req k = None \<longrightarrow> data new k = data old k)
          \<and> (\<forall>k v. k \<notin> {''name'', ''id'', ''expiryDate''} \<and> body req k = Some v \<longrightarrow>
                 data new k = Some v)
          \<and> data new ''id'' = data old ''id''
          \<and> data new ''expiryDate'' = data old ''expiryDate''
          \<and> createdAt new = createdAt old"
    if h: "find (has_id (params_id req)) (rows st) = Some old
        \<and> validationResult (update_rules e) (body req) = []
        \<and> fault e OpFindOne = None \<and> fault e OpUpdate = None
        \<and> (\<forall>v. body req ''name'' = Some v \<longrightarrow> (\<exists>s. v = Str s) \<or> \<not> truthy v)"
  proof -
    from h have f: "find (has_id (params_id req)) (rows st) = Some old"
      and va: "validationResult (update_rules e) (body req) = []"
      and f1: "fault e OpFindOne = None" and f2: "fault e OpUpdate = None"
      and nm: "\<forall>v. body req ''name'' = Some v \<longrightarrow> (\<exists>s. v = Str s) \<or> \<not> truthy v"
      by simp_all
    from updatedData_total [OF va nm] obtain vals where
      u: "updatedData e req = Inr vals" and
      o: "\<forall>k. k \<noteq> ''name'' \<longrightarrow> vals k = body req k" and
      t: "\<forall>s. body req ''name'' = Some (Str s) \<longrightarrow> vals ''name'' = Some (Str (toLowerCase e s))" and
      g: "\<forall>v. body req ''name'' = Some v \<and> (\<forall>s. v \<noteq> Str s) \<longrightarrow> vals ''name'' = Some v" and
      a: "body req ''name'' = None \<longrightarrow> vals ''name'' = None"
      by (elim exE conjE) (rule that, assumption+)
    define new where "new = apply_update e vals old"
    note c = updateProductById_succeeds [OF f va f1 f2 u]
    have r1: "fst (updateProductById e req st) = Response 200 (JsonRow new)"
      by (simp add: c new_def)
    have r2: "find (has_id (params_id req)) (rows (snd (updateProductById e req st))) = Some new"
      by (simp add: c new_def find_after_update [OF f])
    have r3: "calls (snd (updateProductById e req st))
               = calls st @ [CallFindOne (params_id req), CallUpdate old vals]"
      by (simp add: c)
    have r5: "vals ''name'' = Some (Str (toLowerCase e s))
                 \<and> data new ''name'' = Some (Str (toLowerCase e s))"
      if "body req ''name'' = Some (Str s)" for s
      using that t by (simp add: new_def apply_update_data)
    have r6: "data new ''name'' = Some v"
      if "body req ''name'' = Some v \<and> (\<forall>s. v \<noteq> Str s)" for v
      using that g by (simp add: new_def apply_update_data)
    have r7: "data new k = data old k" if "body req k = None" for k
    proof (cases "k = ''name''")
      case True
      with that a show ?thesis by (simp add: new_def apply_update_data)
    next
      case False
      with that o show ?thesis by (simp add: new_def apply_update_data)
    qed
    have r8: "data new k = Some v"
      if "k \<notin> {''name'', ''id'', ''expiryDate''} \<and> body req k = Some v" for k v
      using that o by (simp add: new_def apply_update_data)
    have r9: "data new ''id'' = data old ''id''" "data new ''expiryDate'' = data old ''expiryDate''"
      "createdAt new = createdAt old"
      by (simp_all add: new_def apply_update_data apply_update_createdAt)
    show ?thesis
      using r1 r2 r3 o r5 r6 r7 r8 r9 by (intro exI [of _ new] exI [of _ vals]) blast
  qed
  show ?thesis
    using frame carried by blast
qed

theorem C4_update_partial_witness:
  "fst (updateProductById env_ok req_rename store_three) =
     Response 200 (JsonRow (apply_update env_ok [''name'' \<mapsto> Str ''widget'']
                              (row_of ''p1'' ''chair'' ''49.99'' 10)))
   \<and> data (apply_update env_ok [''name'' \<mapsto> Str ''widget''] (row_of ''p1'' ''chair'' ''49.99'' 10))
        ''name'' = Some (Str ''widget'')
   \<and> data (apply_update env_ok [''name'' \<mapsto> Str ''widget''] (row_of ''p1'' ''chair'' ''49.99'' 10))
        ''price'' = Some (Str ''49.99'')
   \<and> find (has_id ''p1'') (rows (snd (updateProductById env_ok req_rename store_three)))
        = Some (apply_update env_ok [''name'' \<mapsto> Str ''widget''] (row_of ''p1'' ''chair'' ''49.99'' 10))
   \<and> fst (updateProductById env_ok req_reprice store_three) =
     Response 200 (JsonRow (apply_update env_ok
        [''price'' \<mapsto> Str ''5'', ''id'' \<mapsto> Str ''p9'', ''expiryDate'' \<mapsto> DateV 99]
        (row_of ''p1'' ''chair'' ''49.99'' 10)))
   \<and> data (apply_update env_ok
        [''price'' \<mapsto> Str ''5'', ''id'' \<mapsto> Str ''p9'', ''expiryDate'' \<mapsto> DateV 99]
        (row_of ''p1'' ''chair'' ''49.99'' 10)) ''price'' = Some (Str ''5'')
   \<and> data (apply_update env_ok
        [''price'' \<mapsto> Str ''5'', ''id'' \<mapsto> Str ''p9'', ''expiryDate'' \<mapsto> DateV 99]
        (row_of ''p1'' ''chair'' ''49.99'' 10)) ''id'' = Some (Str ''p1'')
   \<and> data (apply_update env_ok
        [''price'' \<mapsto> Str ''5'', ''id'' \<mapsto> Str ''p9'', ''expiryDate'' \<mapsto> DateV 99]
        (row_of ''p1'' ''chair'' ''49.99'' 10)) ''expiryDate'' = Some (DateV 10)"
proof -
  let ?old = "row_of ''p1'' ''chair'' ''49.99'' 10"
  let ?n1 = "apply_update env_ok [''name'' \<mapsto> Str ''widget''] ?old"
  let ?n2 = "apply_update env_ok
        [''price'' \<mapsto> Str ''5'', ''id'' \<mapsto> Str ''p9'', ''expiryDate'' \<mapsto> DateV 99] ?old"
  have h1: "find (has_id (params_id req_rename)) (rows store_three) = Some ?old
        \<and> validationResult (update_rules env_ok) (body req_rename) = []
        \<and> fault env_ok OpFindOne = None \<and> fault env_ok OpUpdate = None
        \<and> (\<forall>v. body req_rename ''name'' = Some v \<longrightarrow> (\<exists>s. v = Str s) \<or> \<not> truthy v)"
    using update_p1_examples(1) validation_update_examples(1)
    by (simp add: env_ok_simps req_update_simps)
  have h2: "find (has_id (params_id req_reprice)) (rows store_three) = Some ?old
        \<and> validationResult (update_rules env_ok) (body req_reprice) = []
        \<and> fault env_ok OpFindOne = None \<and> fault env_ok OpUpdate = None
        \<and> (\<forall>v. body req_reprice ''name'' = Some v \<longrightarrow> (\<exists>s. v = Str s) \<or> \<not> truthy v)"
    using update_p1_examples(3) validation_update_examples(3)
    by (simp add: env_ok_simps req_update_simps)
  have c1: "fst (updateProductById env_ok req_rename store_three) = Response 200 (JsonRow ?n1)"
    using updateProductById_succeeds [OF update_p1_examples(1) validation_update_examples(1) _ _
        updatedData_examples(1)]
    by (simp add: env_ok_simps)
  have c2: "fst (updateProductById env_ok req_reprice store_three) = Response 200 (JsonRow ?n2)"
    using updateProductById_succeeds [OF update_p1_examples(3) validation_update_examples(3) _ _
        updatedData_examples(3)]
    by (simp add: env_ok_simps)
  from mp [OF conjunct2 [OF C4_update_partial [of req_rename env_ok store_three ?old]] h1]
  obtain new1 where a:
    "fst (updateProductById env_ok req_rename store_three) = Response 200 (JsonRow new1)"
    "find (has_id (params_id req_rename)) (rows (snd (updateProductById env_ok req_rename store_three)))
       = Some new1"
    "\<forall>s. body req_rename ''name'' = Some (Str s) \<longrightarrow>
           data new1 ''name'' = Some (Str (toLowerCase env_ok s))"
    "\<forall>k. body req_rename k = None \<longrightarrow> data new1 k = data ?old k"
    by (elim exE conjE) (rule that, assumption, assumption, simp, assumption)
  from mp [OF conjunct2 [OF C4_update_partial [of req_reprice env_ok store_three ?old]] h2]
  obtain new2 where b:
    "fst (updateProductById env_ok req_reprice store_three) = Response 200 (JsonRow new2)"
    "\<forall>k v. k \<notin> {''name'', ''id'', ''expiryDate''} \<and> body req_reprice k = Some v \<longrightarrow>
           data new2 k = Some v"
    "data new2 ''id'' = data ?old ''id''"
    "data new2 ''expiryDate'' = data ?old ''expiryDate''"
    by (elim exE conjE) (rule that, assumption+)
  from a(1) c1 have e1: "new1 = ?n1" by simp
  from b(1) c2 have e2: "new2 = ?n2" by simp
  have p1: "data ?n1 ''name'' = Some (Str ''widget'')"
    using a(3) unfolding e1 by (simp add: req_update_simps env_ok_simps ascii_lower_examples)
  have p2: "data ?n1 ''price'' = Some (Str ''49.99'')"
    using a(4) unfolding e1 by (simp add: req_update_simps row_of_def)
  have p3: "find (has_id ''p1'') (rows (snd (updateProductById env_ok req_rename store_three)))
        = Some ?n1"
    using a(2) unfolding e1 by (simp add: req_update_simps)
  have q1: "data ?n2 ''price'' = Some (Str ''5'')"
    using b(2) unfolding e2 by (simp add: req_update_simps)
  have q2: "data ?n2 ''id'' = Some (Str ''p1'')"
    using b(3) unfolding e2 by (simp add: row_of_def)
  have q3: "data ?n2 ''expiryDate'' = Some (DateV 10)"
    using b(4) unfolding e2 by (simp add: row_of_def)
  show ?thesis
    using c1 c2 p1 p2 p3 q1 q2 q3 by simp
qed

subsection \<open>C5: the id under UpdateById\<close>

text \<open>
  C5: no UpdateById call, whatever fields its payload contains and whatever its outcome,
  changes the id of a stored record: the ids of the stored records are after the call
  what they were before, in the same order, and a record returned with 200 carries the
  id that was requested. The handler hands the payload, an id included, to the record's
  update; it is the store that keeps the id, as the spec says of it.
\<close>

theorem C5_update_keeps_id:
  "ids (snd (updateProductById e req st)) = ids st
   \<and> (\<forall>new. fst (updateProductById e req st) = Response 200 (JsonRow new) \<longrightarrow>
          data new ''id'' = Some (Str (params_id req)))"
proof -
  have same: "ids (snd (updateProductById e req st)) = ids st"
    unfolding ids_def by (rule column_unchanged_by_updateProductById) simp
  have sent: "data new ''id'' = Some (Str (params_id req))"
    if r: "fst (updateProductById e req st) = Response 200 (JsonRow new)" for new
  proof -
    obtain out st' where c: "updateProductById e req st = (out, st')"
      by (cases "updateProductById e req st")
    from c r have o: "out = Response 200 (JsonRow new)" by simp
    from updateProductById_cases [OF c] o
    obtain old vals where f: "find (has_id (params_id req)) (rows st) = Some old"
      and n: "Response 200 (JsonRow new) = Response 200 (JsonRow (apply_update e vals old))"
      by auto
    from n have "new = apply_update e vals old" by simp
    moreover have "data old ''id'' = Some (Str (params_id req))"
      using find_has_id_Some [OF f] by (simp add: has_id_def)
    ultimately show ?thesis
      by (simp add: apply_update_data)
  qed
  show ?thesis
    using same sent by blast
qed

theorem C5_update_keeps_id_witness:
  "body req_new_id ''id'' = Some (Str ''p9'')
   \<and> calls (snd (updateProductById env_ok req_new_id store_three)) =
        [CallFindOne ''p1'', CallUpdate (row_of ''p1'' ''chair'' ''49.99'' 10) [''id'' \<mapsto> Str ''p9'']]
   \<and> fst (updateProductById env_ok req_new_id store_three) =
        Response 200 (JsonRow (apply_update env_ok [''id'' \<mapsto> Str ''p9'']
                                 (row_of ''p1'' ''chair'' ''49.99'' 10)))
   \<and> data (apply_update env_ok [''id'' \<mapsto> Str ''p9''] (row_of ''p1'' ''chair'' ''49.99'' 10)) ''id''
        = Some (Str ''p1'')
   \<and> ids (snd (updateProductById env_ok req_new_id store_three))
        = [Some (Str ''p1''), Some (Str ''p2''), Some (Str ''p3'')]"
proof -
  let ?old = "row_of ''p1'' ''chair'' ''49.99'' 10"
  let ?n = "apply_update env_ok [''id'' \<mapsto> Str ''p9''] ?old"
  note c = updateProductById_succeeds [OF update_p1_examples(2) validation_update_examples(2) _ _
        updatedData_examples(2)]
  have c1: "fst (updateProductById env_ok req_new_id store_three) = Response 200 (JsonRow ?n)"
    using c by (simp add: env_ok_simps)
  have c2: "calls (snd (updateProductById env_ok req_new_id store_three)) =
        [CallFindOne ''p1'', CallUpdate ?old [''id'' \<mapsto> Str ''p9'']]"
    using c by (simp add: env_ok_simps store_three_simps req_update_simps)
  note T = C5_update_keeps_id [of env_ok req_new_id store_three]
  have i: "ids (snd (updateProductById env_ok req_new_id store_three))
        = [Some (Str ''p1''), Some (Str ''p2''), Some (Str ''p3'')]"
    using conjunct1 [OF T] by (simp add: ids_def store_three_simps row_of_simps)
  have d: "data ?n ''id'' = Some (Str ''p1'')"
    using mp [OF spec [OF conjunct2 [OF T], of ?n] c1] by (simp add: req_update_simps)
  show ?thesis
    using c1 c2 i d by (simp add: req_update_simps)
qed

subsection \<open>C6: reading a product by id\<close>

text \<open>
  C6: when the store's lookup does not fail, GetById answers 404 with a plain-text
  message for every id that no stored record has (not 500), and for every id that some
  stored record has it answers 200 with a stored record of that id. The stored records
  are not changed.
\<close>

theorem C6_getProductById:
  assumes "fault e OpFindOne = None"
  shows "((\<forall>r\<in>set (rows st). \<not> has_id (params_id req) r) \<longrightarrow>
            fst (getProductById e req st) =
              Response 404 (Text ''Product with the specified ID does not exist''))
       \<and> ((\<exists>r\<in>set (rows st). has_id (params_id req) r) \<longrightarrow>
            (\<exists>r\<in>set (rows st). has_id (params_id req) r
               \<and> fst (getProductById e req st) = Response 200 (JsonRow r)))
       \<and> rows (snd (getProductById e req st)) = rows st"
proof -
  have absent: "fst (getProductById e req st) =
              Response 404 (Text ''Product with the specified ID does not exist'')"
    if "\<forall>r\<in>set (rows st). \<not> has_id (params_id req) r"
    using assms find_None_has_id [OF that]
    by (simp add: getProductById_def Product_findOne_def Let_def)
  have present: "\<exists>r\<in>set (rows st). has_id (params_id req) r
               \<and> fst (getProductById e req st) = Response 200 (JsonRow r)"
    if h: "\<exists>r\<in>set (rows st). has_id (params_id req) r"
  proof -
    obtain r where r: "r \<in> set (rows st)" "has_id (params_id req) r"
      "find (has_id (params_id req)) (rows st) = Some r"
      using find_Some_has_id [OF h] by auto
    have "fst (getProductById e req st) = Response 200 (JsonRow r)"
      using assms r(3) by (simp add: getProductById_def Product_findOne_def Let_def)
    with r show ?thesis by auto
  qed
  have same: "rows (snd (getProductById e req st)) = rows st"
    by (simp add: getProductById_def Product_findOne_def Let_def called_def
          split: option.splits)
  show ?thesis
    using absent present same by simp
qed

theorem C6_getProductById_witness:
  "fst (getProductById env_ok req_unknown store_three) =
     Response 404 (Text ''Product with the specified ID does not exist'')
   \<and> fst (getProductById env_ok req_rename store_three) =
     Response 200 (JsonRow (row_of ''p1'' ''chair'' ''49.99'' 10))"
proof -
  have f: "fault env_ok OpFindOne = None"
    by (simp add: env_ok_simps)
  have u: "\<forall>r\<in>set (rows store_three). \<not> has_id (params_id req_unknown) r"
    by (simp add: store_three_simps row_of_simps req_unknown_def req_rename_def)
  have a: "fst (getProductById env_ok req_unknown store_three) =
     Response 404 (Text ''Product with the specified ID does not exist'')"
    using C6_getProductById [OF f, of store_three req_unknown] u by simp
  have k: "\<exists>r\<in>set (rows store_three). has_id (params_id req_rename) r"
    by (simp add: store_three_simps row_of_simps req_rename_def)
  obtain r where r: "r \<in> set (rows store_three)" "has_id (params_id req_rename) r"
    "fst (getProductById env_ok req_rename store_three) = Response 200 (JsonRow r)"
    using C6_getProductById [OF f, of store_three req_rename] k by auto
  from r(1,2) have "r = row_of ''p1'' ''chair'' ''49.99'' 10"
    by (auto simp: store_three_simps row_of_simps req_rename_def)
  with a r(3) show ?thesis by simp
qed

subsection \<open>C7: deleting a product by id\<close>

text \<open>
  C7: for every id that no stored record has, DeleteById answers 500 with an error
  message (\<^verbatim>\<open>Product not found\<close>, or the store's own message when the destroy itself
  fails), never 404. Whenever the destroy reports at least one removed record,
  DeleteById answers 204; this is the case for every id that a stored record has when the
  store does not fail, and the records with that id are then gone.
\<close>

theorem C7_deleteProductById:
  "((\<forall>r\<in>set (rows st). \<not> has_id (params_id req) r) \<longrightarrow>
      fst (deleteProductById e req st) =
        Response 500 (Text (case fault e OpDestroy of None \<Rightarrow> ''Product not found'' | Some m \<Rightarrow> m)))
   \<and> (\<forall>n. fst (Product_destroy e (params_id req) st) = Inr n \<and> 0 < n \<longrightarrow>
        fst (deleteProductById e req st) = Response 204 (Text ''Product deleted successfully''))
   \<and> (fault e OpDestroy = None \<and> (\<exists>r\<in>set (rows st). has_id (params_id req) r) \<longrightarrow>
        fst (deleteProductById e req st) = Response 204 (Text ''Product deleted successfully'')
        \<and> rows (snd (deleteProductById e req st))
            = filter (\<lambda>r. \<not> has_id (params_id req) r) (rows st))"
proof -
  have absent: "fst (deleteProductById e req st) =
        Response 500 (Text (case fault e OpDestroy of None \<Rightarrow> ''Product not found'' | Some m \<Rightarrow> m))"
    if "\<forall>r\<in>set (rows st). \<not> has_id (params_id req) r"
  proof -
    have "filter (has_id (params_id req)) (rows st) = []"
      using that by (simp add: filter_empty_conv)
    then show ?thesis
      by (simp add: deleteProductById_def Product_destroy_def Let_def split: option.splits)
  qed
  have affected: "fst (deleteProductById e req st) = Response 204 (Text ''Product deleted successfully'')"
    if "fst (Product_destroy e (params_id req) st) = Inr n \<and> 0 < n" for n
    using that by (cases "Product_destroy e (params_id req) st") (simp add: deleteProductById_def)
  have present: "fst (deleteProductById e req st) = Response 204 (Text ''Product deleted successfully'')
        \<and> rows (snd (deleteProductById e req st))
            = filter (\<lambda>r. \<not> has_id (params_id req) r) (rows st)"
    if "fault e OpDestroy = None \<and> (\<exists>r\<in>set (rows st). has_id (params_id req) r)"
  proof -
    have "filter (has_id (params_id req)) (rows st) \<noteq> []"
      using that by (simp add: filter_empty_conv)
    then show ?thesis
      using that by (simp add: deleteProductById_def Product_destroy_def Let_def called_def)
  qed
  show ?thesis
    using absent affected present by blast
qed

theorem C7_deleteProductById_witness:
  "fst (deleteProductById env_ok req_unknown store_three) = Response 500 (Text ''Product not found'')
   \<and> fst (deleteProductById env_down req_unknown store_three) = Response 500 (Text ''connection refused'')
   \<and> fst (deleteProductById env_ok req_rename store_three) =
       Response 204 (Text ''Product deleted successfully'')
   \<and> rows (snd (deleteProductById env_ok req_rename store_three)) =
       [row_of ''p2'' ''desk'' ''120'' 30, row_of ''p3'' ''lamp'' ''15.5'' 20]"
proof -
  have u: "\<forall>r\<in>set (rows store_three). \<not> has_id (params_id req_unknown) r"
    by (simp add: store_three_simps row_of_simps req_unknown_def req_rename_def)
  have k: "fault env_ok OpDestroy = None \<and> (\<exists>r\<in>set (rows store_three). has_id (params_id req_rename) r)"
    by (simp add: store_three_simps row_of_simps req_rename_def env_ok_simps)
  have a: "fst (deleteProductById env_ok req_unknown store_three) = Response 500 (Text ''Product not found'')"
    using C7_deleteProductById [of store_three req_unknown env_ok] u by (simp add: env_ok_simps)
  have b: "fst (deleteProductById env_down req_unknown store_three) = Response 500 (Text ''connection refused'')"
    using C7_deleteProductById [of store_three req_unknown env_down] u by (simp add: env_down_def)
  have c: "fst (deleteProductById env_ok req_rename store_three) =
       Response 204 (Text ''Product deleted successfully'')
     \<and> rows (snd (deleteProductById env_ok req_rename store_three))
            = filter (\<lambda>r. \<not> has_id (params_id req_rename) r) (rows store_three)"
    using C7_deleteProductById [of store_three req_rename env_ok] k by simp
  show ?thesis
    using a b c by (simp add: store_three_simps row_of_simps req_rename_def)
qed

subsection \<open>C8: Create without an image\<close>

text \<open>
  C8: for every Create call with valid fields, no uploaded file and no cloud URL (the
  request's \<^verbatim>\<open>cloudinaryUrl\<close> is \<^verbatim>\<open>undefined\<close> or otherwise falsy), on which the store does
  not fail, the record that is stored and returned has the property \<^verbatim>\<open>productImage\<close>
  with the value \<^verbatim>\<open>null\<close>, and every submitted field other than \<^verbatim>\<open>id\<close>, \<^verbatim>\<open>name\<close>,
  \<^verbatim>\<open>productImage\<close> and \<^verbatim>\<open>expiryDate\<close>, the price among them, has the value that was
  submitted.
\<close>

theorem C8_create_without_image:
  assumes "validationResult (create_rules e) (body req) = []"
      and "body req ''name'' = Some (Str s)"
      and "req_file req = None"
      and "\<not> truthy (cloudinaryUrl req)"
      and "fault e OpCreate = None"
  shows "\<exists>product.
           createProduct e req st =
             (Response 201 (JsonRow product),
              \<lparr>rows = rows st @ [product], calls = calls st @ [CallCreate (data product)]\<rparr>)
         \<and> data product ''productImage'' = Some Null
         \<and> data product ''productImage'' \<noteq> None
         \<and> data product ''productImage'' \<noteq> Some (Str [])
         \<and> data product ''price'' = body req ''price''
         \<and> (\<forall>k. k \<notin> {''id'', ''name'', ''productImage'', ''expiryDate''} \<longrightarrow>
                data product k = body req k)"
proof -
  define vals where
    "vals = (body req)(''id'' \<mapsto> Str (uuidv4 e), ''name'' \<mapsto> Str (toLowerCase e s),
                         ''productImage'' \<mapsto> productImage req, ''expiryDate'' \<mapsto> DateV (now e))"
  define product where "product = \<lparr>data = vals, createdAt = now e, updatedAt = now e\<rparr>"
  have t: "transformedData e req = Inr vals"
    using assms(2) by (simp add: transformedData_Str vals_def)
  have p: "productImage req = Null"
    using assms(3,4) by (simp add: productImage_def)
  have c: "createProduct e req st =
             (Response 201 (JsonRow product),
              \<lparr>rows = rows st @ [product], calls = calls st @ [CallCreate (data product)]\<rparr>)"
    using assms(1,5) t
    by (simp add: createProduct_def Product_create_def called_def Let_def product_def)
  have d: "data product = vals"
    by (simp add: product_def)
  show ?thesis
    using c by (intro exI [of _ product]) (simp add: d vals_def p)
qed

theorem C8_create_without_image_witness:
  "fst (createProduct env_ok req_chair store_empty) =
     Response 201 (JsonRow
        \<lparr>data = [''price'' \<mapsto> Str ''49.99'',
                 ''id'' \<mapsto> Str ''3f2b8c1e-5d4a-4c6b-9e7f-000000000001'',
                 ''name'' \<mapsto> Str ''chair'', ''productImage'' \<mapsto> Null,
                 ''expiryDate'' \<mapsto> DateV 40],
         createdAt = 40, updatedAt = 40\<rparr>)
   \<and> data (last (rows (snd (createProduct env_ok req_chair store_empty)))) ''productImage''
       = Some Null
   \<and> data (last (rows (snd (createProduct env_ok req_chair store_empty)))) ''price''
       = Some (Str ''49.99'')"
proof -
  have v: "validationResult (create_rules env_ok) (body req_chair) = []"
    by (simp add: validationResult_create req_defs_simps env_ok_simps get_prop_def numeric_examples)
  have n: "body req_chair ''name'' = Some (Str ''Chair'')"
    by (simp add: req_defs_simps)
  have f: "req_file req_chair = None" and u: "\<not> truthy (cloudinaryUrl req_chair)"
    by (simp_all add: req_defs_simps)
  have o: "fault env_ok OpCreate = None"
    by (simp add: env_ok_simps)
  obtain product where
    "createProduct env_ok req_chair store_empty =
       (Response 201 (JsonRow product),
        \<lparr>rows = rows store_empty @ [product],
         calls = calls store_empty @ [CallCreate (data product)]\<rparr>)"
    "data product ''productImage'' = Some Null"
    "data product ''price'' = body req_chair ''price''"
    using C8_create_without_image [OF v n f u o, of store_empty] by blast
  then show ?thesis
    by (simp add: createProduct_chair [OF refl refl refl] req_defs_simps Let_def productImage_def)
qed

subsection \<open>C9: listing the products\<close>

text \<open>
  C9: List asks the store for all records ordered by \<^verbatim>\<open>createdAt\<close>, descending. When
  the store does not fail it answers 200 with exactly the stored records (each as often
  as it is stored), every record before the ones created earlier. When the store fails
  it answers 500 with the store's error message. The stored records are not changed.
\<close>

theorem C9_getAllProducts:
  "(fault e OpFindAll = None \<longrightarrow>
      (\<exists>products. fst (getAllProducts e st) = Response 200 (JsonRows products)
         \<and> mset products = mset (rows st)
         \<and> sorted_wrt (\<lambda>a b. createdAt b \<le> createdAt a) products))
   \<and> (\<forall>m. fault e OpFindAll = Some m \<longrightarrow>
         fst (getAllProducts e st) = Response 500 (Text m))
   \<and> rows (snd (getAllProducts e st)) = rows st
   \<and> calls (snd (getAllProducts e st)) = calls st @ [CallFindAll [(''createdAt'', DESC)]]"
proof -
  have ok: "fst (getAllProducts e st) = Response 200 (JsonRows (rev (sort_key createdAt (rows st))))"
    if "fault e OpFindAll = None"
    using that
    by (simp add: getAllProducts_def Product_findAll_def order_rows_createdAt_DESC Let_def)
  have bad: "fst (getAllProducts e st) = Response 500 (Text m)" if "fault e OpFindAll = Some m" for m
    using that by (simp add: getAllProducts_def Product_findAll_def Let_def)
  have st: "snd (getAllProducts e st) = called (CallFindAll [(''createdAt'', DESC)]) st"
    by (simp add: getAllProducts_def Product_findAll_def Let_def split: option.splits)
  have m: "mset (rev (sort_key createdAt (rows st))) = mset (rows st)"
    by simp
  show ?thesis
    using ok bad m newest_first_sorted [of "rows st"]
    by (simp add: st called_def)
qed

theorem C9_getAllProducts_witness:
  "fst (getAllProducts env_ok store_three) =
     Response 200 (JsonRows [row_of ''p2'' ''desk'' ''120'' 30, row_of ''p3'' ''lamp'' ''15.5'' 20,
                              row_of ''p1'' ''chair'' ''49.99'' 10])
   \<and> sorted_wrt (\<lambda>a b. createdAt b \<le> createdAt a)
        [row_of ''p2'' ''desk'' ''120'' 30, row_of ''p3'' ''lamp'' ''15.5'' 20,
         row_of ''p1'' ''chair'' ''49.99'' 10]
   \<and> fst (getAllProducts env_down store_three) = Response 500 (Text ''connection refused'')"
proof -
  have a: "fault env_down OpFindAll = Some ''connection refused''"
    by (simp add: env_down_def)
  have b: "fst (getAllProducts env_down store_three) = Response 500 (Text ''connection refused'')"
    using C9_getAllProducts [of env_down store_three] a by simp
  have c: "fst (getAllProducts env_ok store_three) =
     Response 200 (JsonRows [row_of ''p2'' ''desk'' ''120'' 30, row_of ''p3'' ''lamp'' ''15.5'' 20,
                              row_of ''p1'' ''chair'' ''49.99'' 10])"
    by (simp add: getAllProducts_def Product_findAll_def order_rows_createdAt_DESC Let_def
          env_ok_simps store_three_simps row_of_simps)
  have d: "fault env_ok OpFindAll = None"
    by (simp add: env_ok_simps)
  obtain products where
    p: "fst (getAllProducts env_ok store_three) = Response 200 (JsonRows products)" and
    q: "sorted_wrt (\<lambda>a b. createdAt b \<le> createdAt a) products"
    using C9_getAllProducts [of env_ok store_three] d
    by (elim conjE impE exE) (assumption, rule that, assumption+)
  from p c have "products = [row_of ''p2'' ''desk'' ''120'' 30, row_of ''p3'' ''lamp'' ''15.5'' 20,
                              row_of ''p1'' ''chair'' ''49.99'' 10]"
    by simp
  with q b c show ?thesis by simp
qed

subsection \<open>C10: a \<^verbatim>\<open>productImage\<close> field in the body\<close>

text \<open>
  C10: a \<^verbatim>\<open>productImage\<close> value that the client puts in the body has no effect on Create:
  the outcome and the store are the same as without it. The stored record's
  \<^verbatim>\<open>productImage\<close> is the reference resolved from the request's file and cloud URL.
\<close>

theorem C10_body_productImage_overridden:
  "createProduct e (req\<lparr>body := (body req)(''productImage'' \<mapsto> v)\<rparr>) st = createProduct e req st
   \<and> (\<forall>product st'. createProduct e req st = (Response 201 (JsonRow product), st') \<longrightarrow>
         data product ''productImage'' = Some (productImage req)
         \<and> last (rows st') = product)"
proof -
  have "createProduct e (req\<lparr>body := (body req)(''productImage'' \<mapsto> v)\<rparr>) st = createProduct e req st"
    by (simp add: createProduct_def validationResult_create transformedData_body_upd
          get_prop_def)
  moreover have "data product ''productImage'' = Some (productImage req) \<and> last (rows st') = product"
    if "createProduct e req st = (Response 201 (JsonRow product), st')" for product st'
    using createProduct_created(1,2) [OF that] transformedData_fields(2) by simp
  ultimately show ?thesis by blast
qed

theorem C10_body_productImage_overridden_witness:
  "createProduct env_ok
     (req_chair_both\<lparr>body := (body req_chair_both)(''productImage'' \<mapsto> Str ''mine.png'')\<rparr>)
     store_empty
     = createProduct env_ok req_chair_both store_empty
   \<and> data (last (rows (snd (createProduct env_ok
        (req_chair_both\<lparr>body := (body req_chair_both)(''productImage'' \<mapsto> Str ''mine.png'')\<rparr>)
        store_empty)))) ''productImage'' = Some (Str ''chair.png'')"
proof -
  obtain p s where c: "createProduct env_ok req_chair_both store_empty = (Response 201 (JsonRow p), s)"
    by (simp add: createProduct_chair [OF refl refl] req_defs_simps Let_def)
  have e: "createProduct env_ok
     (req_chair_both\<lparr>body := (body req_chair_both)(''productImage'' \<mapsto> Str ''mine.png'')\<rparr>)
     store_empty = createProduct env_ok req_chair_both store_empty"
    and d: "data p ''productImage'' = Some (productImage req_chair_both) \<and> last (rows s) = p"
    using C10_body_productImage_overridden [of env_ok req_chair_both "Str ''mine.png''" store_empty] c
    by blast+
  show ?thesis
    unfolding e c using d by (simp add: productImage_def req_defs_simps)
qed

end
